theory Spec2Isabelle
  imports Complex_Main "HOL-Library.Word"
begin

section \<open>PySpectroscope: the calibration, colour and spectrum pipeline of spectroscope.py\<close>

text \<open>
  The numbers of the program are Python ints and floats. They are modelled as
  \<^typ>\<open>real\<close> (ints embed into the reals, and a float is read as the real it
  approximates), so every statement below is about the exact arithmetic of the
  formulas, not about IEEE rounding. Python's true division \<open>/\<close> raises
  ZeroDivisionError on a zero divisor, for ints and floats alike; HOL's \<open>/\<close>
  returns 0 there, so the check is written into the model.
\<close>

subsection \<open>Errors\<close>

datatype py_error = ZeroDivisionError | CvError

definition py_truediv :: "real \<Rightarrow> real \<Rightarrow> py_error + real" where
  "py_truediv a b = (if b = 0 then Inl ZeroDivisionError else Inr (a / b))"

text \<open>Python's \<open>int(x)\<close> on a float truncates towards zero.\<close>

definition py_int :: "real \<Rightarrow> int" where
  "py_int x = (if 0 \<le> x then \<lfloor>x\<rfloor> else \<lceil>x\<rceil>)"

subsection \<open>Class constants (lines 21-26)\<close>

type_synonym calibration_pairs = "(real \<times> real) \<times> (real \<times> real)"

definition calibration :: calibration_pairs where
  "calibration = ((305, 405), (707, 631))"

definition FRAME_WIDTH :: nat where
  "FRAME_WIDTH = 1280"

definition FRAME_HEIGHT :: nat where
  "FRAME_HEIGHT = 720"

subsection \<open>Wavelength calibration (lines 158-174)\<close>

text \<open>
  Both conversions read \<open>self.calibration\<close>; it is the first argument here, so that
  the claims about every calibration can be stated. The source names start with an
  underscore, which an Isabelle name cannot.
\<close>

definition nm_to_px :: "calibration_pairs \<Rightarrow> real \<Rightarrow> py_error + real" where
  "nm_to_px cal nm =
     (let px0 = fst (fst cal); px1 = fst (snd cal);
          nm0 = snd (fst cal); nm1 = snd (snd cal);
          nm_range = \<bar>nm0 - nm1\<bar>;
          px_range = \<bar>px0 - px1\<bar>
      in case py_truediv px_range nm_range of
           Inl e \<Rightarrow> Inl e
         | Inr pxpernm \<Rightarrow> Inr (px0 + (nm - nm0) * pxpernm))"

definition px_to_nm :: "calibration_pairs \<Rightarrow> real \<Rightarrow> py_error + real" where
  "px_to_nm cal x =
     (let px0 = fst (fst cal); px1 = fst (snd cal);
          nm0 = snd (fst cal); nm1 = snd (snd cal);
          nm_range = \<bar>nm0 - nm1\<bar>;
          px_range = \<bar>px0 - px1\<bar>
      in case py_truediv nm_range px_range of
           Inl e \<Rightarrow> Inl e
         | Inr nmperpx \<Rightarrow> Inr (nm0 + (x - px0) * nmperpx))"

subsection \<open>Wavelength to colour (lines 185-221)\<close>

type_synonym color = "real \<times> real \<times> real"

text \<open>The raw channels \<open>(r, g, b)\<close> of lines 191-208, before the taper and gamma.\<close>

definition raw_rgb :: "real \<Rightarrow> color" where
  "raw_rgb nm =
     (if 380 \<le> nm \<and> nm < 440 then (- (nm - 440) / (440 - 380), 0, 1)
      else if 440 \<le> nm \<and> nm < 490 then (0, (nm - 440) / (490 - 440), 1)
      else if 490 \<le> nm \<and> nm < 510 then (0, 1, - (nm - 510) / (510 - 490))
      else if 510 \<le> nm \<and> nm < 580 then ((nm - 510) / (580 - 510), 1, 0)
      else if 580 \<le> nm \<and> nm < 645 then (1, - (nm - 645) / (645 - 580), 0)
      else if 645 \<le> nm \<and> nm \<le> 780 then (1, 0, 0)
      else (0, 0, 0))"

text \<open>The local variable \<open>factor\<close> of lines 210-216.\<close>

definition factor :: "real \<Rightarrow> real" where
  "factor nm =
     (if 380 \<le> nm \<and> nm < 420 then 0.3 + 0.7 * (nm - 380) / (420 - 380)
      else if 420 \<le> nm \<and> nm < 701 then 1.0
      else if 701 \<le> nm \<and> nm \<le> 780 then 0.3 + 0.7 * (780 - nm) / (780 - 700)
      else 0.0)"

definition gamma :: real where
  "gamma = 0.8"

text \<open>
  The nested function \<open>adjust\<close> (lines 218-219); it closes over \<open>max_intensity\<close> and
  \<open>factor\<close>, which are arguments here. Python's \<open>**\<close> on a non-negative float base
  is the real power \<open>powr\<close>.
\<close>

definition adjust :: "real \<Rightarrow> real \<Rightarrow> real \<Rightarrow> real" where
  "adjust max_intensity fac color =
     (if color > 0 then max_intensity * ((color * fac) powr gamma) else 0)"

definition wavelength_to_rgb :: "real \<Rightarrow> real \<Rightarrow> color" where
  "wavelength_to_rgb nm max_intensity =
     (case raw_rgb nm of (r, g, b) \<Rightarrow>
        (adjust max_intensity (factor nm) r,
         adjust max_intensity (factor nm) g,
         adjust max_intensity (factor nm) b))"

definition px_to_rgb :: "calibration_pairs \<Rightarrow> real \<Rightarrow> real \<Rightarrow> py_error + color" where
  "px_to_rgb cal x max_intensity =
     (case px_to_nm cal x of
        Inl e \<Rightarrow> Inl e
      | Inr nm \<Rightarrow> Inr (wavelength_to_rgb nm max_intensity))"

subsection \<open>The spec's wording of the taper, for comparison\<close>

text \<open>
  The line through \<open>(x0, y0)\<close> and \<open>(x1, y1)\<close>: "a linear ramp from \<open>y0\<close> at
  \<open>x0\<close> to \<open>y1\<close> at \<open>x1\<close>".
\<close>

definition ramp :: "real \<Rightarrow> real \<Rightarrow> real \<Rightarrow> real \<Rightarrow> real \<Rightarrow> real" where
  "ramp x0 y0 x1 y1 x = y0 + (y1 - y0) * (x - x0) / (x1 - x0)"

text \<open>
  The taper as the specification words it (not taken from the source): a ramp from 0.3
  to 1.0 over [380,420), 1.0 over [420,701), a ramp from 1.0 at 701 down to 0.3 at 780
  over [701,780], and 0 elsewhere.
\<close>

definition spec_factor :: "real \<Rightarrow> real" where
  "spec_factor nm =
     (if 380 \<le> nm \<and> nm < 420 then ramp 380 0.3 420 1.0 nm
      else if 420 \<le> nm \<and> nm < 701 then 1.0
      else if 701 \<le> nm \<and> nm \<le> 780 then ramp 701 1.0 780 0.3 nm
      else 0)"

subsection \<open>Frames, the figure and the application object\<close>

text \<open>
  A frame is a numpy array of shape \<open>(height, width, 3)\<close> of uint8, in OpenCV's BGR
  order. \<open>frame_ok\<close> says that the rows agree with the shape, which numpy guarantees.
\<close>

type_synonym pixel = "8 word \<times> 8 word \<times> 8 word"

record frame =
  shape_h :: nat
  shape_w :: nat
  rows :: "pixel list list"

definition frame_ok :: "frame \<Rightarrow> bool" where
  "frame_ok f = (length (rows f) = shape_h f \<and> list_all (\<lambda>r. length r = shape_w f) (rows f))"

text \<open>A plotted point: a pixel column and an intensity (a uint8 of the gray row).\<close>

type_synonym point = "nat \<times> 8 word"

text \<open>
  The matplotlib figure, as far as the program writes it: the LineCollection \<open>lc\<close>,
  the PolyCollection \<open>pc\<close> and the major tick positions of the x axis.
\<close>

record figure =
  lc_segments :: "point list list"
  lc_color :: "color list"
  pc_verts :: "point list list"
  pc_facecolor :: "color list"
  pc_edgecolor :: "color list"
  xticks :: "real list"

text \<open>
  The thumbnail is kept symbolically, as the frame it was made from (the resize and the
  colour conversion are the libraries'). A written file is the raw frame (cv2.imwrite)
  or the figure (savefig).
\<close>

datatype photo = PhotoImage frame

datatype file_content = FramePng frame | FigurePng figure

text \<open>
  The fields of \<open>SpectrometerApp\<close> that the methods below read or write, together with
  what they do to the outside: \<open>draw_idle_calls\<close> counts the canvas redraw requests,
  \<open>after_calls\<close> lists the delays passed to \<open>window.after\<close>, \<open>files\<close> lists the files
  written, in order.
\<close>

record app =
  current_frame :: "frame option"
  fig :: figure
  overlay_tk_img :: "photo option"
  status_lbl :: string
  draw_idle_calls :: nat
  after_calls :: "nat list"
  files :: "(string \<times> file_content) list"

subsection \<open>Helpers for Python's list comprehensions and numpy's arange\<close>

text \<open>A list comprehension whose body may raise: the first exception ends it.\<close>

fun list_comp :: "('a \<Rightarrow> py_error + 'b) \<Rightarrow> 'a list \<Rightarrow> py_error + 'b list" where
  "list_comp f [] = Inr []"
| "list_comp f (x # xs) =
     (case f x of
        Inl e \<Rightarrow> Inl e
      | Inr y \<Rightarrow> (case list_comp f xs of Inl e \<Rightarrow> Inl e | Inr ys \<Rightarrow> Inr (y # ys)))"

text \<open>
  \<open>np.arange(start, stop, step)\<close> on ints with a positive step (the program's step is
  50): \<open>start, start + step, ...\<close> while below \<open>stop\<close>.
\<close>

function arange :: "int \<Rightarrow> int \<Rightarrow> int \<Rightarrow> int list" where
  "arange start stop step =
     (if 0 < step \<and> start < stop then start # arange (start + step) stop step else [])"
  by pat_completeness auto
termination
  by (relation "measure (\<lambda>(start, stop, step). nat (stop - start))") auto

declare arange.simps [simp del]

subsection \<open>The spectrum extractor (lines 109-129)\<close>

text \<open>
  \<open>cv2.cvtColor(frame, COLOR_BGR2GRAY)\<close> converts pixel by pixel; the conversion of
  one pixel is the parameter \<open>bgr2gray\<close>. cvtColor raises on an empty array, so a
  frame without rows or columns ends in \<open>CvError\<close>. After that check the width is at
  least 1, and \<open>range(width - 1)\<close> is \<open>[0..<width - 1]\<close>.
\<close>

definition draw_spectrum ::
  "(pixel \<Rightarrow> 8 word) \<Rightarrow> calibration_pairs \<Rightarrow> frame \<Rightarrow> app \<Rightarrow> py_error + app" where
  "draw_spectrum bgr2gray cal frame s =
     (let height = shape_h frame; width = shape_w frame;
          mid_y = height div 2
      in if height = 0 \<or> width = 0 then Inl CvError
         else
           (let intensity_line = map bgr2gray (rows frame ! mid_y) in
            (case list_comp (\<lambda>px. px_to_rgb cal (real px) 0.5) [0..<width - 1] of
               Inl e \<Rightarrow> Inl e
             | Inr colors \<Rightarrow>
                 (let segments = map (\<lambda>px. [(px, intensity_line ! px),
                                             (px + 1, intensity_line ! (px + 1))])
                                     [0..<width - 1];
                      s1 = s\<lparr>fig := (fig s)\<lparr>lc_segments := segments, lc_color := colors\<rparr>\<rparr>
                  in (case list_comp (\<lambda>px. px_to_rgb cal (real px) 1.0) [0..<width - 1] of
                        Inl e \<Rightarrow> Inl e
                      | Inr colors2 \<Rightarrow>
                          (let vertices = map (\<lambda>px. [(px, 0), (px, intensity_line ! px),
                                                      (px + 1, intensity_line ! (px + 1)),
                                                      (px + 1, 0)])
                                              [0..<width - 1]
                           in Inr (s1\<lparr>fig := (fig s1)\<lparr>pc_verts := vertices,
                                                        pc_facecolor := colors2,
                                                        pc_edgecolor := colors2\<rparr>\<rparr>)))))))"

subsection \<open>The overlay and the timer callback (lines 84-107)\<close>

definition draw_overlay :: "frame \<Rightarrow> app \<Rightarrow> app" where
  "draw_overlay frame s = s\<lparr>overlay_tk_img := Some (PhotoImage frame)\<rparr>"

text \<open>
  \<open>update\<close> gets the result \<open>(ret, frame)\<close> of \<open>self.vid.read()\<close> as an argument; the
  frame is only looked at when \<open>ret\<close> is true. An exception leaves the method before
  \<open>window.after\<close> is reached.
\<close>

definition update ::
  "(pixel \<Rightarrow> 8 word) \<Rightarrow> calibration_pairs \<Rightarrow> bool \<times> frame \<Rightarrow> app \<Rightarrow> py_error + app" where
  "update bgr2gray cal rd s =
     (case rd of (ret, frame) \<Rightarrow>
        (case (if ret
               then (case draw_spectrum bgr2gray cal frame s of
                       Inl e \<Rightarrow> Inl e
                     | Inr s1 \<Rightarrow>
                         let s2 = draw_overlay frame s1;
                             s3 = s2\<lparr>current_frame := Some frame\<rparr>
                         in Inr (s3\<lparr>draw_idle_calls := draw_idle_calls s3 + 1\<rparr>))
               else Inr s) of
           Inl e \<Rightarrow> Inl e
         | Inr s' \<Rightarrow> Inr (s'\<lparr>after_calls := after_calls s' @ [30]\<rparr>)))"

subsection \<open>The snapshot (lines 223-236)\<close>

text \<open>The timestamp string of \<open>datetime.now()\<close> is an argument.\<close>

definition save_snapshot :: "string \<Rightarrow> app \<Rightarrow> app" where
  "save_snapshot timestamp s =
     (case current_frame s of
        None \<Rightarrow> s
      | Some fr \<Rightarrow>
          let filename = ''spectrum_'' @ timestamp @ ''.png'';
              s1 = s\<lparr>files := files s @ [(filename, FramePng fr)]\<rparr>;
              s2 = s1\<lparr>files := files s1 @
                     [(''spectrum_'' @ timestamp @ ''_graph.png'', FigurePng (fig s1))]\<rparr>
          in s2\<lparr>status_lbl := ''File spectrum_'' @ timestamp @ ''.png saved''\<rparr>)"

subsection \<open>Construction (lines 28-72 and 131-156)\<close>

text \<open>
  \<open>_set_ax_ticks\<close> is the only part of the constructor that reads the calibration;
  it returns the tick positions it hands to the x axis.
\<close>

definition set_ax_ticks :: "calibration_pairs \<Rightarrow> py_error + real list" where
  "set_ax_ticks cal =
     (case px_to_nm cal 0 of
        Inl e \<Rightarrow> Inl e
      | Inr a \<Rightarrow>
          (let start_nm = py_int a in
           (case px_to_nm cal (real FRAME_WIDTH) of
              Inl e \<Rightarrow> Inl e
            | Inr b \<Rightarrow>
                (let end_nm = py_int b;
                     nm_ticks = arange ((start_nm div 50 + 1) * 50) end_nm 50
                 in list_comp (\<lambda>nm. nm_to_px cal (real_of_int nm)) nm_ticks))))"

text \<open>
  \<open>__init__\<close>: the capture device, the widgets and the axis style are the libraries';
  what remains is the initial value of the fields and the call of \<open>_set_ax_ticks\<close>
  (through \<open>_set_ax_style\<close>), whose exception leaves the constructor.
\<close>

definition init :: "calibration_pairs \<Rightarrow> py_error + app" where
  "init cal =
     (case set_ax_ticks cal of
        Inl e \<Rightarrow> Inl e
      | Inr ticks \<Rightarrow>
          Inr \<lparr>current_frame = None,
               fig = \<lparr>lc_segments = [], lc_color = [], pc_verts = [],
                      pc_facecolor = [], pc_edgecolor = [], xticks = ticks\<rparr>,
               overlay_tk_img = None,
               status_lbl = ''Ready'',
               draw_idle_calls = 0,
               after_calls = [],
               files = []\<rparr>)"

section \<open>Properties of the calibration model\<close>

lemma px_to_nm_ok:
  "px0 \<noteq> px1 \<Longrightarrow>
   px_to_nm ((px0, nm0), (px1, nm1)) x = Inr (nm0 + (x - px0) * (\<bar>nm0 - nm1\<bar> / \<bar>px0 - px1\<bar>))"
  by (simp add: px_to_nm_def py_truediv_def)

lemma px_to_nm_fails:
  "px_to_nm ((px0, nm0), (px0, nm1)) x = Inl ZeroDivisionError"
  by (simp add: px_to_nm_def py_truediv_def)

lemma nm_to_px_ok:
  "nm0 \<noteq> nm1 \<Longrightarrow>
   nm_to_px ((px0, nm0), (px1, nm1)) nm = Inr (px0 + (nm - nm0) * (\<bar>px0 - px1\<bar> / \<bar>nm0 - nm1\<bar>))"
  by (simp add: nm_to_px_def py_truediv_def)

lemma nm_to_px_fails:
  "nm_to_px ((px0, nm0), (px1, nm0)) nm = Inl ZeroDivisionError"
  by (simp add: nm_to_px_def py_truediv_def)

text \<open>
  C1. For a calibration with distinct pixel columns and distinct wavelengths and every
  real \<open>x\<close>, converting \<open>x\<close> to a wavelength returns a value, and converting that
  wavelength back returns \<open>x\<close>: \<open>_nm_to_px (_px_to_nm x) = x\<close>, over the reals.
\<close>

theorem px_nm_round_trip:
  assumes "px0 \<noteq> px1" and "nm0 \<noteq> nm1"
  shows "\<exists>nm. px_to_nm ((px0, nm0), (px1, nm1)) x = Inr nm
              \<and> nm_to_px ((px0, nm0), (px1, nm1)) nm = Inr x"
proof -
  let ?nm = "nm0 + (x - px0) * (\<bar>nm0 - nm1\<bar> / \<bar>px0 - px1\<bar>)"
  have fwd: "px_to_nm ((px0, nm0), (px1, nm1)) x = Inr ?nm"
    using assms(1) by (rule px_to_nm_ok)
  have "(?nm - nm0) * (\<bar>px0 - px1\<bar> / \<bar>nm0 - nm1\<bar>) = x - px0"
    using assms by simp
  then have "px0 + (?nm - nm0) * (\<bar>px0 - px1\<bar> / \<bar>nm0 - nm1\<bar>) = x"
    by simp
  then have bwd: "nm_to_px ((px0, nm0), (px1, nm1)) ?nm = Inr x"
    using nm_to_px_ok [OF assms(2), of px0 px1 ?nm] by simp
  from fwd bwd show ?thesis by blast
qed

theorem px_nm_round_trip_witness:
  "(305::real) \<noteq> 707 \<and> (405::real) \<noteq> 631 \<and>
   (\<exists>nm. px_to_nm calibration 100 = Inr nm \<and> nm_to_px calibration nm = Inr 100)"
  using px_nm_round_trip [of 305 707 405 631 100] by (simp add: calibration_def)

text \<open>
  C2. With the class calibration (305, 405), (707, 631), \<open>_px_to_nm\<close> computes
  \<open>nm0 + (x - px0) * (|nm1 - nm0| / |px1 - px0|)\<close>, and returns 405 at \<open>x = 305\<close>
  and 631 at \<open>x = 707\<close>.
\<close>

theorem px_to_nm_calibration:
  "px_to_nm calibration x = Inr (405 + (x - 305) * (\<bar>631 - 405\<bar> / \<bar>707 - 305\<bar>))
   \<and> px_to_nm calibration 305 = Inr 405
   \<and> px_to_nm calibration 707 = Inr 631"
  by (simp add: px_to_nm_def py_truediv_def calibration_def)

text \<open>
  C3, as the claim states it, fails where the two axes run in opposite directions:
  with the pairs (305, 631) and (707, 405), column 707 is mapped to 857, not to 405.
\<close>

theorem px_to_nm_inverted_counterexample:
  "px_to_nm ((305, 631), (707, 405)) 707 = Inr 857
   \<and> px_to_nm ((305, 631), (707, 405)) 707 \<noteq> Inr 405"
  by (simp add: px_to_nm_def py_truediv_def)

text \<open>
  C3, amended. For a calibration with distinct pixel columns and distinct wavelengths,
  \<open>_px_to_nm\<close> maps \<open>px0\<close> to \<open>nm0\<close>; it maps \<open>px1\<close> to \<open>nm1\<close> exactly when
  the pixel and the wavelength axes run in the same direction, and to
  \<open>2 * nm0 - nm1\<close> (\<open>nm1\<close> mirrored at \<open>nm0\<close>) when they run in opposite directions.
\<close>

theorem px_to_nm_calibration_points:
  assumes "px0 \<noteq> px1" and "nm0 \<noteq> nm1"
  shows "px_to_nm ((px0, nm0), (px1, nm1)) px0 = Inr nm0
       \<and> px_to_nm ((px0, nm0), (px1, nm1)) px1 =
           Inr (if (px0 < px1) = (nm0 < nm1) then nm1 else 2 * nm0 - nm1)
       \<and> ((px_to_nm ((px0, nm0), (px1, nm1)) px1 = Inr nm1) = ((px0 < px1) = (nm0 < nm1)))"
proof -
  have a: "px_to_nm ((px0, nm0), (px1, nm1)) px0 = Inr nm0"
    using assms(1) by (simp add: px_to_nm_ok)
  have "(px1 - px0) * (\<bar>nm0 - nm1\<bar> / \<bar>px0 - px1\<bar>)
        = (if (px0 < px1) = (nm0 < nm1) then nm1 - nm0 else nm0 - nm1)"
    using assms by (auto simp: abs_if field_simps)
  then have b: "px_to_nm ((px0, nm0), (px1, nm1)) px1 =
           Inr (if (px0 < px1) = (nm0 < nm1) then nm1 else 2 * nm0 - nm1)"
    using assms(1) by (simp add: px_to_nm_ok)
  have c: "(px_to_nm ((px0, nm0), (px1, nm1)) px1 = Inr nm1) = ((px0 < px1) = (nm0 < nm1))"
    unfolding b using assms(2) by auto
  from a b c show ?thesis by blast
qed

theorem px_to_nm_calibration_points_witness:
  "(305::real) \<noteq> 707 \<and> (405::real) \<noteq> 631
   \<and> px_to_nm calibration 305 = Inr 405 \<and> px_to_nm calibration 707 = Inr 631
   \<and> px_to_nm ((305, 631), (707, 405)) 305 = Inr 631
   \<and> px_to_nm ((305, 631), (707, 405)) 707 = Inr 857"
  using px_to_nm_calibration_points [of 305 707 405 631]
        px_to_nm_calibration_points [of 305 707 631 405]
  by (simp add: calibration_def)

text \<open>
  C10. For a calibration with distinct pixel columns and distinct wavelengths,
  \<open>_px_to_nm\<close> returns a value at every \<open>x\<close> and is strictly increasing in \<open>x\<close>,
  whatever the order of the two pairs.
\<close>

theorem px_to_nm_strict_mono:
  assumes "px0 \<noteq> px1" and "nm0 \<noteq> nm1" and "x < y"
  shows "\<exists>a b. px_to_nm ((px0, nm0), (px1, nm1)) x = Inr a
             \<and> px_to_nm ((px0, nm0), (px1, nm1)) y = Inr b \<and> a < b"
proof -
  have pos: "0 < \<bar>nm0 - nm1\<bar> / \<bar>px0 - px1\<bar>"
    using assms(1,2) by simp
  have "x - px0 < y - px0"
    using assms(3) by simp
  then have "(x - px0) * (\<bar>nm0 - nm1\<bar> / \<bar>px0 - px1\<bar>)
           < (y - px0) * (\<bar>nm0 - nm1\<bar> / \<bar>px0 - px1\<bar>)"
    using pos by (rule mult_strict_right_mono)
  then have "nm0 + (x - px0) * (\<bar>nm0 - nm1\<bar> / \<bar>px0 - px1\<bar>)
           < nm0 + (y - px0) * (\<bar>nm0 - nm1\<bar> / \<bar>px0 - px1\<bar>)"
    by simp
  then show ?thesis
    unfolding px_to_nm_ok [OF assms(1)] by blast
qed

theorem px_to_nm_strict_mono_witness:
  "(707::real) \<noteq> 305 \<and> (405::real) \<noteq> 631 \<and> (0::real) < 1
   \<and> (\<exists>a b. px_to_nm ((707, 405), (305, 631)) 0 = Inr a
         \<and> px_to_nm ((707, 405), (305, 631)) 1 = Inr b \<and> a < b)"
  using px_to_nm_strict_mono [of 707 305 405 631 0 1] by simp

section \<open>Properties of the colour mapper\<close>

lemma factor_nonneg: "0 \<le> factor nm"
  by (simp add: factor_def)

lemma wavelength_to_rgb_700: "wavelength_to_rgb 700 1.0 = (1, 0, 0)"
  by (simp add: wavelength_to_rgb_def raw_rgb_def factor_def adjust_def)

text \<open>
  C5, as the claim states it, fails at 701 nm: the last ramp does not start from 1.0
  there, the taper is 0.99125.
\<close>

theorem factor_701_counterexample:
  "factor 701 = 0.99125 \<and> factor 701 \<noteq> 1"
  by (simp add: factor_def)

text \<open>
  C5, amended. The taper is the ramp from 0.3 to 1.0 over [380,420), 1.0 over
  [420,701), over [701,780] the line that is 1.0 at 700 and 0.3 at 780 (so 0.99125
  at 701), and 0 outside [380,780]. It agrees with the specification's wording
  everywhere but on [701,780).
\<close>

theorem factor_piecewise:
  "factor nm =
     (if 380 \<le> nm \<and> nm < 420 then ramp 380 0.3 420 1.0 nm
      else if 420 \<le> nm \<and> nm < 701 then 1.0
      else if 701 \<le> nm \<and> nm \<le> 780 then ramp 700 1.0 780 0.3 nm
      else 0)
   \<and> (factor nm = spec_factor nm) = (\<not> (701 \<le> nm \<and> nm < 780))"
  by (auto simp: factor_def spec_factor_def ramp_def field_simps)

text \<open>
  C6. For every wavelength, each channel of \<open>_wavelength_to_rgb\<close> at
  \<open>max_intensity = 0.5\<close> is half of the channel at \<open>max_intensity = 1.0\<close>.
\<close>

theorem wavelength_to_rgb_half:
  "wavelength_to_rgb nm 0.5 =
     (case wavelength_to_rgb nm 1.0 of (r, g, b) \<Rightarrow> (r / 2, g / 2, b / 2))"
  by (simp add: wavelength_to_rgb_def adjust_def split: prod.splits)

section \<open>Properties of the spectrum extractor\<close>

lemma list_comp_Inr:
  "(\<And>x. x \<in> set xs \<Longrightarrow> f x = Inr (g x)) \<Longrightarrow> list_comp f xs = Inr (map g xs)"
  by (induction xs) auto

lemma px_to_rgb_ok:
  "px0 \<noteq> px1 \<Longrightarrow>
   px_to_rgb ((px0, nm0), (px1, nm1)) x m =
     Inr (wavelength_to_rgb (nm0 + (x - px0) * (\<bar>nm0 - nm1\<bar> / \<bar>px0 - px1\<bar>)) m)"
  by (simp add: px_to_rgb_def px_to_nm_ok)

lemma draw_spectrum_ok:
  assumes "px0 \<noteq> px1" and "0 < shape_h frame" and "0 < shape_w frame"
  shows "draw_spectrum bgr2gray ((px0, nm0), (px1, nm1)) frame s =
     Inr (s\<lparr>fig := (fig s)\<lparr>
        lc_segments := map (\<lambda>px. [(px, map bgr2gray (rows frame ! (shape_h frame div 2)) ! px),
                                   (px + 1, map bgr2gray (rows frame ! (shape_h frame div 2)) ! (px + 1))])
                           [0..<shape_w frame - 1],
        lc_color := map (\<lambda>px. wavelength_to_rgb
                             (nm0 + (real px - px0) * (\<bar>nm0 - nm1\<bar> / \<bar>px0 - px1\<bar>)) 0.5)
                        [0..<shape_w frame - 1],
        pc_verts := map (\<lambda>px. [(px, 0), (px, map bgr2gray (rows frame ! (shape_h frame div 2)) ! px),
                                   (px + 1, map bgr2gray (rows frame ! (shape_h frame div 2)) ! (px + 1)),
                                   (px + 1, 0)])
                           [0..<shape_w frame - 1],
        pc_facecolor := map (\<lambda>px. wavelength_to_rgb
                             (nm0 + (real px - px0) * (\<bar>nm0 - nm1\<bar> / \<bar>px0 - px1\<bar>)) 1.0)
                            [0..<shape_w frame - 1],
        pc_edgecolor := map (\<lambda>px. wavelength_to_rgb
                             (nm0 + (real px - px0) * (\<bar>nm0 - nm1\<bar> / \<bar>px0 - px1\<bar>)) 1.0)
                            [0..<shape_w frame - 1]\<rparr>\<rparr>)"
proof -
  have c1: "list_comp (\<lambda>px. px_to_rgb ((px0, nm0), (px1, nm1)) (real px) 0.5) [0..<shape_w frame - 1]
          = Inr (map (\<lambda>px. wavelength_to_rgb
                             (nm0 + (real px - px0) * (\<bar>nm0 - nm1\<bar> / \<bar>px0 - px1\<bar>)) 0.5)
                     [0..<shape_w frame - 1])"
    by (rule list_comp_Inr) (simp add: px_to_rgb_ok [OF assms(1)])
  have c2: "list_comp (\<lambda>px. px_to_rgb ((px0, nm0), (px1, nm1)) (real px) 1.0) [0..<shape_w frame - 1]
          = Inr (map (\<lambda>px. wavelength_to_rgb
                             (nm0 + (real px - px0) * (\<bar>nm0 - nm1\<bar> / \<bar>px0 - px1\<bar>)) 1.0)
                     [0..<shape_w frame - 1])"
    by (rule list_comp_Inr) (simp add: px_to_rgb_ok [OF assms(1)])
  show ?thesis
    using assms(2,3) unfolding draw_spectrum_def Let_def c1 c2 by simp
qed

lemma draw_spectrum_empty:
  "shape_h frame = 0 \<or> shape_w frame = 0 \<Longrightarrow> draw_spectrum bgr2gray cal frame s = Inl CvError"
  by (auto simp: draw_spectrum_def)

lemma middle_row_length:
  assumes "frame_ok frame" and "0 < shape_h frame"
  shows "length (map bgr2gray (rows frame ! (shape_h frame div 2))) = shape_w frame"
proof -
  have "shape_h frame div 2 < length (rows frame)"
    using assms by (simp add: frame_ok_def)
  then have "rows frame ! (shape_h frame div 2) \<in> set (rows frame)"
    by (rule nth_mem)
  then show ?thesis
    using assms(1) by (simp add: frame_ok_def list_all_iff)
qed

text \<open>
  C7. For a frame of height \<open>h > 0\<close> and width \<open>w > 0\<close> (a frame as the capture
  device returns it) and a calibration whose pixel columns differ, \<open>_draw_spectrum\<close>
  returns normally; the intensity profile is the grayscale of row \<open>h div 2\<close> and has
  \<open>w\<close> values; there are \<open>w - 1\<close> line segments, the one at \<open>x\<close> running from
  \<open>(x, intensity[x])\<close> to \<open>(x + 1, intensity[x + 1])\<close> with the colour
  \<open>_px_to_rgb(x, 0.5)\<close>, and \<open>w - 1\<close> quadrilaterals from the baseline up to the same
  two intensities, with face and edge colour \<open>_px_to_rgb(x, 1.0)\<close>.
\<close>

theorem draw_spectrum_geometry:
  assumes "frame_ok frame" and "0 < shape_h frame" and "0 < shape_w frame" and "px0 \<noteq> px1"
  shows "\<exists>s'. draw_spectrum bgr2gray ((px0, nm0), (px1, nm1)) frame s = Inr s'
     \<and> length (map bgr2gray (rows frame ! (shape_h frame div 2))) = shape_w frame
     \<and> length (lc_segments (fig s')) = shape_w frame - 1
     \<and> length (lc_color (fig s')) = shape_w frame - 1
     \<and> length (pc_verts (fig s')) = shape_w frame - 1
     \<and> length (pc_facecolor (fig s')) = shape_w frame - 1
     \<and> pc_edgecolor (fig s') = pc_facecolor (fig s')
     \<and> (\<forall>x < shape_w frame - 1.
           lc_segments (fig s') ! x =
             [(x, map bgr2gray (rows frame ! (shape_h frame div 2)) ! x),
              (x + 1, map bgr2gray (rows frame ! (shape_h frame div 2)) ! (x + 1))]
         \<and> px_to_rgb ((px0, nm0), (px1, nm1)) (real x) 0.5 = Inr (lc_color (fig s') ! x)
         \<and> pc_verts (fig s') ! x =
             [(x, 0), (x, map bgr2gray (rows frame ! (shape_h frame div 2)) ! x),
              (x + 1, map bgr2gray (rows frame ! (shape_h frame div 2)) ! (x + 1)),
              (x + 1, 0)]
         \<and> px_to_rgb ((px0, nm0), (px1, nm1)) (real x) 1.0 = Inr (pc_facecolor (fig s') ! x))"
  unfolding draw_spectrum_ok [OF assms(4,2,3)] px_to_rgb_ok [OF assms(4)]
  using middle_row_length [OF assms(1,2)] by simp

theorem draw_spectrum_geometry_witness:
  "frame_ok \<lparr>shape_h = 2, shape_w = 4,
             rows = [[(9, 9, 9), (9, 9, 9), (9, 9, 9), (9, 9, 9)],
                     [(0, 0, 0), (64, 64, 64), (128, 128, 128), (255, 255, 255)]]\<rparr>
   \<and> (305::real) \<noteq> 707
   \<and> (\<exists>s'. draw_spectrum fst calibration
          \<lparr>shape_h = 2, shape_w = 4,
           rows = [[(9, 9, 9), (9, 9, 9), (9, 9, 9), (9, 9, 9)],
                   [(0, 0, 0), (64, 64, 64), (128, 128, 128), (255, 255, 255)]]\<rparr>
          \<lparr>current_frame = None,
           fig = \<lparr>lc_segments = [], lc_color = [], pc_verts = [],
                  pc_facecolor = [], pc_edgecolor = [], xticks = []\<rparr>,
           overlay_tk_img = None, status_lbl = ''Ready'', draw_idle_calls = 0,
           after_calls = [], files = []\<rparr> = Inr s'
        \<and> length (lc_segments (fig s')) = 3
        \<and> length (pc_verts (fig s')) = 3
        \<and> lc_segments (fig s') ! 2 = [(2, 128), (3, 255)]
        \<and> pc_verts (fig s') ! 0 = [(0, 0), (0, 0), (1, 64), (1, 0)])"
proof -
  let ?fr = "\<lparr>shape_h = 2, shape_w = 4,
             rows = [[(9, 9, 9), (9, 9, 9), (9, 9, 9), (9, 9, 9)],
                     [(0, 0, 0), (64, 64, 64), (128, 128, 128), (255, 255, 255)]]\<rparr> :: frame"
  let ?s = "\<lparr>current_frame = None,
           fig = \<lparr>lc_segments = [], lc_color = [], pc_verts = [],
                  pc_facecolor = [], pc_edgecolor = [], xticks = []\<rparr>,
           overlay_tk_img = None, status_lbl = ''Ready'', draw_idle_calls = 0,
           after_calls = [], files = []\<rparr> :: app"
  have ok: "frame_ok ?fr" by (simp add: frame_ok_def)
  have h: "0 < shape_h ?fr" and w: "0 < shape_w ?fr" by simp_all
  have px: "(305::real) \<noteq> 707" by simp
  from draw_spectrum_geometry [OF ok h w px, of fst 405 631 ?s]
  obtain s' where s': "draw_spectrum fst ((305, 405), (707, 631)) ?fr ?s = Inr s'"
    and n1: "length (lc_segments (fig s')) = shape_w ?fr - 1"
    and n2: "length (pc_verts (fig s')) = shape_w ?fr - 1"
    and pt: "\<forall>x < shape_w ?fr - 1.
           lc_segments (fig s') ! x =
             [(x, map fst (rows ?fr ! (shape_h ?fr div 2)) ! x),
              (x + 1, map fst (rows ?fr ! (shape_h ?fr div 2)) ! (x + 1))]
         \<and> px_to_rgb ((305, 405), (707, 631)) (real x) 0.5 = Inr (lc_color (fig s') ! x)
         \<and> pc_verts (fig s') ! x =
             [(x, 0), (x, map fst (rows ?fr ! (shape_h ?fr div 2)) ! x),
              (x + 1, map fst (rows ?fr ! (shape_h ?fr div 2)) ! (x + 1)),
              (x + 1, 0)]
         \<and> px_to_rgb ((305, 405), (707, 631)) (real x) 1.0 = Inr (pc_facecolor (fig s') ! x)"
    by blast
  have a: "lc_segments (fig s') ! 2 = [(2, 128), (3, 255)]"
    using pt [rule_format, of 2] by simp
  have b: "pc_verts (fig s') ! 0 = [(0, 0), (0, 0), (1, 64), (1, 0)]"
    using pt [rule_format, of 0] by simp
  from ok px s' n1 n2 a b show ?thesis
    by (simp add: calibration_def)
qed

section \<open>Properties of the snapshot and of the timer callback\<close>

text \<open>
  C8. A snapshot request while no frame has been captured (\<open>_current_frame\<close> is
  \<open>None\<close>) changes nothing: no file is written and the status message stays.
\<close>

theorem save_snapshot_no_frame:
  assumes "current_frame s = None"
  shows "save_snapshot timestamp s = s
       \<and> files (save_snapshot timestamp s) = files s
       \<and> status_lbl (save_snapshot timestamp s) = status_lbl s"
  using assms by (simp add: save_snapshot_def)

theorem save_snapshot_no_frame_witness:
  "current_frame \<lparr>current_frame = None,
           fig = \<lparr>lc_segments = [], lc_color = [], pc_verts = [],
                  pc_facecolor = [], pc_edgecolor = [], xticks = []\<rparr>,
           overlay_tk_img = None, status_lbl = ''Ready'', draw_idle_calls = 0,
           after_calls = [], files = []\<rparr> = None
   \<and> files (save_snapshot ''20260201_120000''
         \<lparr>current_frame = None,
           fig = \<lparr>lc_segments = [], lc_color = [], pc_verts = [],
                  pc_facecolor = [], pc_edgecolor = [], xticks = []\<rparr>,
           overlay_tk_img = None, status_lbl = ''Ready'', draw_idle_calls = 0,
           after_calls = [], files = []\<rparr>) = []
   \<and> status_lbl (save_snapshot ''20260201_120000''
         \<lparr>current_frame = None,
           fig = \<lparr>lc_segments = [], lc_color = [], pc_verts = [],
                  pc_facecolor = [], pc_edgecolor = [], xticks = []\<rparr>,
           overlay_tk_img = None, status_lbl = ''Ready'', draw_idle_calls = 0,
           after_calls = [], files = []\<rparr>) = ''Ready''"
  using save_snapshot_no_frame [of "\<lparr>current_frame = None,
           fig = \<lparr>lc_segments = [], lc_color = [], pc_verts = [],
                  pc_facecolor = [], pc_edgecolor = [], xticks = []\<rparr>,
           overlay_tk_img = None, status_lbl = ''Ready'', draw_idle_calls = 0,
           after_calls = [], files = []\<rparr>" "''20260201_120000''"]
  by simp

lemma save_snapshot_with_frame:
  "current_frame s = Some fr \<Longrightarrow>
   files (save_snapshot timestamp s) =
     files s @ [(''spectrum_'' @ timestamp @ ''.png'', FramePng fr),
                (''spectrum_'' @ timestamp @ ''_graph.png'', FigurePng (fig s))]
   \<and> status_lbl (save_snapshot timestamp s) = ''File spectrum_'' @ timestamp @ ''.png saved''"
  by (simp add: save_snapshot_def Let_def)

text \<open>
  C9. On a tick where the read fails (\<open>ret\<close> is false), \<open>update\<close> returns normally
  and leaves the line segments, the polygons, the thumbnail, the stored frame, the
  status and the files as they were, and requests no redraw; it only schedules the
  next tick.
\<close>

theorem update_no_frame:
  "\<exists>s'. update bgr2gray cal (False, frame) s = Inr s'
     \<and> lc_segments (fig s') = lc_segments (fig s)
     \<and> lc_color (fig s') = lc_color (fig s)
     \<and> pc_verts (fig s') = pc_verts (fig s)
     \<and> pc_facecolor (fig s') = pc_facecolor (fig s)
     \<and> pc_edgecolor (fig s') = pc_edgecolor (fig s)
     \<and> fig s' = fig s
     \<and> overlay_tk_img s' = overlay_tk_img s
     \<and> current_frame s' = current_frame s
     \<and> draw_idle_calls s' = draw_idle_calls s
     \<and> status_lbl s' = status_lbl s
     \<and> files s' = files s
     \<and> s' = s\<lparr>after_calls := after_calls s @ [30]\<rparr>"
  by (simp add: update_def)

lemma update_with_frame:
  assumes "px0 \<noteq> px1" and "0 < shape_h frame" and "0 < shape_w frame"
  shows "\<exists>s'. update bgr2gray ((px0, nm0), (px1, nm1)) (True, frame) s = Inr s'
     \<and> current_frame s' = Some frame
     \<and> overlay_tk_img s' = Some (PhotoImage frame)
     \<and> draw_idle_calls s' = draw_idle_calls s + 1
     \<and> length (lc_segments (fig s')) = shape_w frame - 1"
  by (simp add: update_def draw_spectrum_ok [OF assms] draw_overlay_def)

section \<open>Properties of construction\<close>

lemma arange_empty: "stop \<le> start \<Longrightarrow> arange start stop step = []"
  by (simp add: arange.simps)

lemma next_multiple_gt: "(n::int) < (n div 50 + 1) * 50"
  by presburger

lemma set_ax_ticks_equal_px:
  "set_ax_ticks ((px0, nm0), (px0, nm1)) = Inl ZeroDivisionError"
  by (simp add: set_ax_ticks_def px_to_nm_fails)

lemma set_ax_ticks_equal_nm:
  assumes "px0 \<noteq> px1"
  shows "set_ax_ticks ((px0, nm0), (px1, nm0)) = Inr []"
proof -
  have "arange ((py_int nm0 div 50 + 1) * 50) (py_int nm0) 50 = []"
    using next_multiple_gt [of "py_int nm0"] by (simp add: arange_empty)
  then show ?thesis
    by (simp add: set_ax_ticks_def px_to_nm_ok [OF assms])
qed

lemma set_ax_ticks_ok:
  assumes "px0 \<noteq> px1" and "nm0 \<noteq> nm1"
  shows "\<not> isl (set_ax_ticks ((px0, nm0), (px1, nm1)))"
  by (simp add: set_ax_ticks_def px_to_nm_ok [OF assms(1)] Let_def
        list_comp_Inr [where g = "\<lambda>nm. px0 + (real_of_int nm - nm0) * (\<bar>px0 - px1\<bar> / \<bar>nm0 - nm1\<bar>)"]
        nm_to_px_ok [OF assms(2)])

lemma init_ok:
  assumes "px0 \<noteq> px1" and "nm0 \<noteq> nm1"
  shows "\<not> isl (init ((px0, nm0), (px1, nm1)))"
  using set_ax_ticks_ok [OF assms]
  by (cases "set_ax_ticks ((px0, nm0), (px1, nm1))") (simp_all add: init_def)

lemma py_int_start: "py_int (405 + (0 - 305) * (\<bar>405 - 631\<bar> / \<bar>305 - 707\<bar>)) = 233"
  by (simp add: py_int_def)

lemma py_int_end: "py_int (405 + (1280 - 305) * (\<bar>405 - 631\<bar> / \<bar>305 - 707\<bar>)) = 953"
  by (simp add: py_int_def)

lemma arange_ticks:
  "arange 250 953 50 = [250, 300, 350, 400, 450, 500, 550, 600, 650, 700, 750, 800, 850, 900, 950]"
  by (simp add: arange.simps)

lemma set_ax_ticks_calibration:
  "set_ax_ticks calibration = Inr [3310 / 113, 13360 / 113, 23410 / 113, 33460 / 113, 43510 / 113,
      53560 / 113, 63610 / 113, 73660 / 113, 83710 / 113, 93760 / 113,
      103810 / 113, 113860 / 113, 123910 / 113, 133960 / 113, 144010 / 113]"
proof -
  have a: "px_to_nm calibration 0 = Inr (405 + (0 - 305) * (\<bar>405 - 631\<bar> / \<bar>305 - 707\<bar>))"
    unfolding calibration_def by (rule px_to_nm_ok) simp
  have b: "px_to_nm calibration (real FRAME_WIDTH) = Inr (405 + (1280 - 305) * (\<bar>405 - 631\<bar> / \<bar>305 - 707\<bar>))"
    unfolding calibration_def FRAME_WIDTH_def by (simp add: px_to_nm_ok)
  have c: "(233 div 50 + 1) * 50 = (250::int)"
    by simp
  have "set_ax_ticks calibration =
          list_comp (\<lambda>nm. nm_to_px calibration (real_of_int nm)) (arange 250 953 50)"
    by (simp only: set_ax_ticks_def a b sum.case Let_def py_int_start py_int_end c)
  then show ?thesis
    by (simp add: arange_ticks calibration_def nm_to_px_def py_truediv_def)
qed

text \<open>
  C4, as the claim states it, fails: the constructor validates nothing. With equal
  wavelengths (and distinct pixel columns) construction succeeds; with equal pixel
  columns it fails, but with the ZeroDivisionError of \<open>_px_to_nm\<close>.
\<close>

theorem init_unvalidated_counterexample:
  "\<not> isl (init ((305, 405), (707, 405)))
   \<and> init ((305, 405), (305, 631)) = Inl ZeroDivisionError"
  by (simp add: init_def set_ax_ticks_equal_nm set_ax_ticks_equal_px)

text \<open>
  C4, amended. There is no InvalidCalibration error and no validation step. With equal
  pixel columns the constructor fails with ZeroDivisionError (raised by \<open>_px_to_nm\<close>,
  which \<open>_set_ax_ticks\<close> calls), and so does every call of \<open>_px_to_nm\<close>. With equal
  wavelengths and distinct pixel columns the constructor succeeds, with no axis ticks;
  \<open>_px_to_nm\<close> then returns \<open>nm0\<close> everywhere and \<open>_nm_to_px\<close> fails with
  ZeroDivisionError when it is called.
\<close>

theorem init_degenerate_calibration:
  assumes "px0 \<noteq> px1"
  shows "init ((px0, nm0), (px0, nm1)) = Inl ZeroDivisionError
       \<and> px_to_nm ((px0, nm0), (px0, nm1)) x = Inl ZeroDivisionError
       \<and> init ((px0, nm0), (px1, nm0)) =
           Inr \<lparr>current_frame = None,
                fig = \<lparr>lc_segments = [], lc_color = [], pc_verts = [],
                       pc_facecolor = [], pc_edgecolor = [], xticks = []\<rparr>,
                overlay_tk_img = None, status_lbl = ''Ready'', draw_idle_calls = 0,
                after_calls = [], files = []\<rparr>
       \<and> px_to_nm ((px0, nm0), (px1, nm0)) x = Inr nm0
       \<and> nm_to_px ((px0, nm0), (px1, nm0)) nm = Inl ZeroDivisionError"
  by (simp add: init_def set_ax_ticks_equal_nm [OF assms] set_ax_ticks_equal_px
        px_to_nm_fails nm_to_px_fails px_to_nm_ok [OF assms])

theorem init_degenerate_calibration_witness:
  "(305::real) \<noteq> 707
   \<and> init ((305, 405), (305, 631)) = Inl ZeroDivisionError
   \<and> \<not> isl (init ((305, 405), (707, 405)))
   \<and> px_to_nm ((305, 405), (707, 405)) 0 = Inr 405
   \<and> nm_to_px ((305, 405), (707, 405)) 500 = Inl ZeroDivisionError"
  using init_degenerate_calibration [of 305 707 405 631 0 500] by simp

end
